theory Spec2Isabelle
  imports Main
begin

section \<open>Python strings\<close>

text \<open>
  A Python \<open>str\<close> is modelled as a \<open>string\<close>: a list of characters, each character standing
  for the code point of the same number. The model therefore covers the code points 0 to 255
  (ASCII and Latin-1). On these, \<open>str.isspace\<close> holds for the code points 9 to 13, 28 to 32,
  133 and 160, and \<open>str.lower\<close> adds 32 to the code points 65 to 90 and 192 to 222 other
  than 215, and leaves every other code point as it is.
\<close>

definition py_isspace :: "char \<Rightarrow> bool" where
  "py_isspace c =
     (let n = (of_char c :: nat)
      in (9 \<le> n \<and> n \<le> 13) \<or> (28 \<le> n \<and> n \<le> 32) \<or> n = 133 \<or> n = 160)"

definition py_lower_char :: "char \<Rightarrow> char" where
  "py_lower_char c =
     (let n = (of_char c :: nat)
      in if (65 \<le> n \<and> n \<le> 90) \<or> (192 \<le> n \<and> n \<le> 222 \<and> n \<noteq> 215)
         then char_of (n + 32) else c)"

definition py_lower :: "string \<Rightarrow> string" where
  "py_lower s = map py_lower_char s"

definition py_lstrip :: "string \<Rightarrow> string" where
  "py_lstrip s = dropWhile py_isspace s"

definition py_rstrip :: "string \<Rightarrow> string" where
  "py_rstrip s = rev (dropWhile py_isspace (rev s))"

definition py_strip :: "string \<Rightarrow> string" where
  "py_strip s = py_rstrip (py_lstrip s)"

section \<open>The context schema\<close>

text \<open>
  \<open>class user_info(BaseModel)\<close> with its three fields, and the wrapper through which the
  runtime hands the context to a tool or to an \<open>is_enabled\<close> predicate
  (\<open>ctx.context\<close> in the source; the field is called \<open>ctx_context\<close> here).
\<close>

record user_info =
  name :: string
  is_premium :: bool
  issue_type :: string

record RunContextWrapper =
  ctx_context :: user_info

section \<open>Tools and their capability predicates\<close>

text \<open>
  Each \<open>is_enabled\<close> lambda takes the wrapped context and the agent under consideration,
  and ignores the agent.
\<close>

definition refund_is_enabled :: "RunContextWrapper \<Rightarrow> 'agent \<Rightarrow> bool" where
  "refund_is_enabled ctx agent = (issue_type (ctx_context ctx) = ''refund'')"

definition refund :: "RunContextWrapper \<Rightarrow> string" where
  "refund ctx =
     (if is_premium (ctx_context ctx)
      then ''Refund processed successfully for '' @ name (ctx_context ctx) @ ''.''
      else name (ctx_context ctx) @ '', you need a premium subscription to request a refund.'')"

definition check_issue_type_is_enabled :: "RunContextWrapper \<Rightarrow> 'agent \<Rightarrow> bool" where
  "check_issue_type_is_enabled ctx agent = (\<not> is_premium (ctx_context ctx))"

definition check_issue_type :: "RunContextWrapper \<Rightarrow> string" where
  "check_issue_type ctx = issue_type (ctx_context ctx)"

definition restart_service_is_enabled :: "RunContextWrapper \<Rightarrow> 'agent \<Rightarrow> bool" where
  "restart_service_is_enabled ctx agent = (issue_type (ctx_context ctx) = ''technical'')"

definition restart_service :: "RunContextWrapper \<Rightarrow> string" where
  "restart_service ctx =
     ''Technical service has been restarted for '' @ name (ctx_context ctx) @ ''.''"

section \<open>Start-up: the API key\<close>

text \<open>
  The process environment is a map from variable names to values. \<open>os.getenv\<close> returns the
  value or \<open>None\<close>; \<open>not openai_api_key\<close> holds for \<open>None\<close> and for the empty string.
  \<open>load_dotenv\<close> belongs to an external library and changes the environment before the key
  is read; it is a parameter of the program.
\<close>

datatype py_error =
    ValueError string
  | EOFError
  | RuntimeFailure string

record RunConfig =
  api_key :: string
  model :: string
  tracing_disabled :: bool

definition os_getenv :: "(string \<rightharpoonup> string) \<Rightarrow> string \<Rightarrow> string option" where
  "os_getenv environ k = environ k"

definition module_init :: "(string \<rightharpoonup> string) \<Rightarrow> py_error + RunConfig" where
  "module_init environ =
     (case os_getenv environ ''OPENAI_API_KEY'' of
        None \<Rightarrow> Inl (ValueError ''OPENAI_API_KEY not found in environment variables.'')
      | Some openai_api_key \<Rightarrow>
          if openai_api_key = []
          then Inl (ValueError ''OPENAI_API_KEY not found in environment variables.'')
          else Inr \<lparr>api_key = openai_api_key, model = ''gpt-4o-mini'',
                    tracing_disabled = True\<rparr>)"

section \<open>The session loop\<close>

text \<open>
  What the program does on the console and towards the runtime, in order. The printed
  texts are named rather than spelled out (one of the prompts holds a character outside
  Latin-1); \<open>Call_run_streamed\<close> records a call of \<open>Runner.run_streamed\<close> with the user's
  input and the context built for the turn.
\<close>

datatype action =
    Print_started
  | Print_hint
  | Prompt_user_input
  | Print_exiting
  | Prompt_issue_type
  | Prompt_premium
  | Print_agent_response
  | Call_run_streamed string user_info
  | Print_final_output string
  | Print_event_triggered string
  | Print_delta string
  | Print_separator

text \<open>
  A streamed event may or may not have a \<open>name\<close> and a \<open>delta\<close> attribute (\<open>None\<close>: the
  attribute is absent). After its events the stream ends, raises, or never yields again.
\<close>

record stream_event =
  event_name :: "string option"
  event_delta :: "string option"

datatype stream_end = Exhausted | Raises string | Stalls

record RunResultStreaming =
  final_output :: string
  stream :: "stream_event list"
  stream_end :: stream_end

datatype outcome = Returned | Uncaught py_error | Blocked

text \<open>
  The external runtime: for the number of the turn, the user's input and the context, either
  the message of an exception raised by the call, or the streaming result.
\<close>

type_synonym runner = "nat \<Rightarrow> string \<Rightarrow> user_info \<Rightarrow> string + RunResultStreaming"

text \<open>The body of \<open>async for event in result.stream()\<close>, for one event and for all of them.\<close>

definition print_event :: "stream_event \<Rightarrow> action list" where
  "print_event event =
     (case event_name event of
        None \<Rightarrow> []
      | Some n \<Rightarrow> if n \<noteq> [] then [Print_event_triggered n] else [])
     @
     (case event_delta event of
        None \<Rightarrow> []
      | Some d \<Rightarrow> if d \<noteq> [] then [Print_delta d, Print_separator] else [])"

definition print_events :: "stream_event list \<Rightarrow> action list" where
  "print_events events = concat (map print_event events)"

text \<open>
  The context of a turn, from the lines answered to the issue-type prompt and to the premium
  prompt.
\<close>

definition user_data :: "string \<Rightarrow> string \<Rightarrow> user_info" where
  "user_data issue_line premium_line =
     (let issue_type = py_lower (py_strip issue_line);
          premium_input = py_lower (py_strip premium_line);
          is_premium = (premium_input \<in> set [''yes'', ''y''])
      in \<lparr>name = ''Areeba'', is_premium = is_premium, issue_type = issue_type\<rparr>)"

text \<open>
  \<open>while True\<close> over the lines of standard input still to be read. \<open>input\<close> shows its prompt
  and then reads a line; at the end of the input it raises \<open>EOFError\<close>. Every turn reads at
  least one line, so the loop is a recursion on the remaining lines. \<open>k\<close> counts the turns.
\<close>

fun main_loop :: "runner \<Rightarrow> nat \<Rightarrow> string list \<Rightarrow> outcome \<times> action list" where
  "main_loop run k [] = (Uncaught EOFError, [Prompt_user_input])"
| "main_loop run k (user_input # stdin1) =
     (if py_lower (py_strip user_input) \<in> set [''exit'', ''quit'']
      then (Returned, [Prompt_user_input, Print_exiting])
      else
        (case stdin1 of
           [] \<Rightarrow> (Uncaught EOFError, [Prompt_user_input, Prompt_issue_type])
         | issue_line # stdin2 \<Rightarrow>
           (case stdin2 of
              [] \<Rightarrow> (Uncaught EOFError, [Prompt_user_input, Prompt_issue_type, Prompt_premium])
            | premium_line # stdin3 \<Rightarrow>
              (let asked = [Prompt_user_input, Prompt_issue_type, Prompt_premium,
                            Print_agent_response,
                            Call_run_streamed user_input (user_data issue_line premium_line)]
               in case run k user_input (user_data issue_line premium_line) of
                    Inl msg \<Rightarrow> (Uncaught (RuntimeFailure msg), asked)
                  | Inr result \<Rightarrow>
                    (let shown = asked @ [Print_final_output (final_output result)]
                                 @ print_events (stream result)
                     in case stream_end result of
                          Raises msg \<Rightarrow> (Uncaught (RuntimeFailure msg), shown)
                        | Stalls \<Rightarrow> (Blocked, shown)
                        | Exhausted \<Rightarrow>
                          (case main_loop run (Suc k) stdin3 of
                             (r, later) \<Rightarrow> (r, shown @ later)))))))"

definition main :: "runner \<Rightarrow> string list \<Rightarrow> outcome \<times> action list" where
  "main run stdin =
     (case main_loop run 0 stdin of (r, out) \<Rightarrow> (r, [Print_started, Print_hint] @ out))"

text \<open>
  The whole module: the key is checked first, and only then does \<open>main\<close> run. The runtime
  is reached through the configuration built from the key.
\<close>

definition program ::
  "((string \<rightharpoonup> string) \<Rightarrow> (string \<rightharpoonup> string)) \<Rightarrow> (string \<rightharpoonup> string) \<Rightarrow>
   (RunConfig \<Rightarrow> runner) \<Rightarrow> string list \<Rightarrow> outcome \<times> action list" where
  "program load_dotenv environ run_streamed stdin =
     (case module_init (load_dotenv environ) of
        Inl e \<Rightarrow> (Uncaught e, [])
      | Inr config \<Rightarrow> main (run_streamed config) stdin)"

text \<open>The contexts handed to the runtime, in the order of the calls.\<close>

fun contexts :: "action list \<Rightarrow> user_info list" where
  "contexts [] = []"
| "contexts (Call_run_streamed u c # as) = c # contexts as"
| "contexts (a # as) = contexts as"

text \<open>
  A runtime for running the loop on examples: every call returns at once, with no streamed
  event.
\<close>

definition quiet_runner :: runner where
  "quiet_runner k user_input c =
     Inr \<lparr>final_output = ''None'', stream = [], stream_end = Exhausted\<rparr>"

definition quiet_runtime :: "RunConfig \<Rightarrow> runner" where
  "quiet_runtime config = quiet_runner"

section \<open>Facts about the string operations\<close>

lemma py_isspace_lower_char: "py_isspace c \<Longrightarrow> py_lower_char c = c"
  by (auto simp: py_isspace_def py_lower_char_def Let_def)

lemma letters_not_space:
  "\<not> py_isspace CHR ''e''" "\<not> py_isspace CHR ''x''" "\<not> py_isspace CHR ''i''"
  "\<not> py_isspace CHR ''t''" "\<not> py_isspace CHR ''q''" "\<not> py_isspace CHR ''u''"
  "\<not> py_isspace CHR ''y''" "\<not> py_isspace CHR ''s''"
  by (simp_all add: py_isspace_def)

lemma py_strip_no_space:
  assumes "\<forall>c \<in> set s. \<not> py_isspace c"
  shows "py_strip s = s"
proof -
  have l: "dropWhile py_isspace s = s"
    using assms by (cases s) auto
  have "\<forall>c \<in> set (rev s). \<not> py_isspace c"
    using assms by simp
  then have r: "dropWhile py_isspace (rev s) = rev s"
    by (cases "rev s") auto
  show ?thesis
    by (simp add: py_strip_def py_lstrip_def py_rstrip_def l r)
qed

text \<open>Lower-casing never turns a space into a letter, so a word without spaces after
  lower-casing had none before.\<close>

lemma py_lower_no_space:
  assumes "\<forall>c \<in> set (py_lower s). \<not> py_isspace c"
  shows "py_strip s = s"
proof (rule py_strip_no_space)
  show "\<forall>c \<in> set s. \<not> py_isspace c"
  proof
    fix c
    assume c: "c \<in> set s"
    show "\<not> py_isspace c"
    proof
      assume sp: "py_isspace c"
      then have "py_lower_char c = c"
        by (rule py_isspace_lower_char)
      moreover have "py_lower_char c \<in> set (py_lower s)"
        using c by (simp add: py_lower_def)
      ultimately show False
        using assms sp by auto
    qed
  qed
qed

lemma py_strip_case_variant:
  assumes "py_lower s \<in> set [''exit'', ''quit'', ''yes'', ''y'']"
  shows "py_strip s = s"
proof (rule py_lower_no_space)
  show "\<forall>c \<in> set (py_lower s). \<not> py_isspace c"
    using assms by (auto simp: letters_not_space)
qed

section \<open>Facts about the loop\<close>

lemma contexts_append: "contexts (xs @ ys) = contexts xs @ contexts ys"
  by (induction xs rule: contexts.induct) auto

lemma contexts_print_event: "contexts (print_event e) = []"
  by (auto simp: print_event_def split: option.splits)

lemma contexts_print_events: "contexts (print_events es) = []"
  by (induction es) (auto simp: print_events_def contexts_append contexts_print_event)

lemma main_loop_exit:
  "py_lower (py_strip u) \<in> set [''exit'', ''quit''] \<Longrightarrow>
   main_loop run k (u # stdin) = (Returned, [Prompt_user_input, Print_exiting])"
  by simp

lemma main_loop_contexts:
  "c \<in> set (contexts (snd (main_loop run k stdin))) \<Longrightarrow> \<exists>i p. c = user_data i p"
  by (induction run k stdin rule: main_loop.induct)
     (auto simp: contexts_append contexts_print_events Let_def
           split: list.splits sum.splits stream_end.splits prod.splits if_splits)

lemma main_loop_no_ValueError:
  "fst (main_loop run k stdin) \<noteq> Uncaught (ValueError m)"
proof (induction run k stdin rule: main_loop.induct)
  case (1 run k)
  show ?case by simp
next
  case (2 run k user_input stdin1)
  show ?case
  proof (cases "py_lower (py_strip user_input) \<in> set [''exit'', ''quit'']")
    case True
    then show ?thesis by simp
  next
    case ne: False
    show ?thesis
    proof (cases stdin1)
      case Nil
      with ne show ?thesis by simp
    next
      case c1: (Cons issue_line stdin2)
      show ?thesis
      proof (cases stdin2)
        case Nil
        with ne c1 show ?thesis by simp
      next
        case c2: (Cons premium_line stdin3)
        show ?thesis
        proof (cases "run k user_input (user_data issue_line premium_line)")
          case (Inl msg)
          with ne c1 c2 show ?thesis by simp
        next
          case (Inr result)
          show ?thesis
          proof (cases "stream_end result")
            case Exhausted
            have "fst (main_loop run (Suc k) stdin3) \<noteq> Uncaught (ValueError m)"
              using "2.IH" [OF ne c1 c2 refl Inr refl Exhausted] .
            with ne c1 c2 Inr Exhausted show ?thesis
              by (simp add: split_beta)
          next
            case (Raises msg)
            with ne c1 c2 Inr show ?thesis by simp
          next
            case Stalls
            with ne c1 c2 Inr show ?thesis by simp
          qed
        qed
      qed
    qed
  qed
qed

section \<open>Verified properties\<close>

subsection \<open>Tool functions\<close>

text \<open>
  Claim C1. For every context, \<open>refund\<close> returns exactly
  "Refund processed successfully for ", the context's name and "." when \<open>is_premium\<close> is
  true, and exactly the context's name followed by
  ", you need a premium subscription to request a refund." when it is false. With the name
  "Areeba" the two results are "Refund processed successfully for Areeba." and
  "Areeba, you need a premium subscription to request a refund.".
\<close>

theorem refund_message:
  "refund ctx =
     (if is_premium (ctx_context ctx)
      then ''Refund processed successfully for '' @ name (ctx_context ctx) @ ''.''
      else name (ctx_context ctx) @ '', you need a premium subscription to request a refund.'')
   \<and> refund \<lparr>ctx_context = \<lparr>name = ''Areeba'', is_premium = True, issue_type = t\<rparr>\<rparr>
       = ''Refund processed successfully for Areeba.''
   \<and> refund \<lparr>ctx_context = \<lparr>name = ''Areeba'', is_premium = False, issue_type = t\<rparr>\<rparr>
       = ''Areeba, you need a premium subscription to request a refund.''"
  by (simp add: refund_def)

text \<open>
  Claim C5. For every context, \<open>restart_service\<close> returns exactly
  "Technical service has been restarted for ", the context's name and "."; with the name
  "Areeba" that is "Technical service has been restarted for Areeba.". The other two fields
  of the context have no influence on the result.
\<close>

theorem restart_service_message:
  "restart_service ctx =
     ''Technical service has been restarted for '' @ name (ctx_context ctx) @ ''.''
   \<and> restart_service \<lparr>ctx_context = \<lparr>name = ''Areeba'', is_premium = b, issue_type = t\<rparr>\<rparr>
       = ''Technical service has been restarted for Areeba.''
   \<and> restart_service (ctx\<lparr>ctx_context := (ctx_context ctx)\<lparr>is_premium := b, issue_type := t\<rparr>\<rparr>)
       = restart_service ctx"
  by (simp add: restart_service_def)

subsection \<open>Capability predicates\<close>

text \<open>
  Claim C2. For every context, the predicate of \<open>refund\<close> is true if and only if the
  context's \<open>issue_type\<close> equals the string "refund". The predicate is a total function to
  the truth values, so every other \<open>issue_type\<close> gives false; the empty string, a different
  letter casing and a garbled word are shown.
\<close>

theorem refund_enabled_iff:
  "refund_is_enabled ctx agent = (issue_type (ctx_context ctx) = ''refund'')
   \<and> \<not> refund_is_enabled \<lparr>ctx_context = \<lparr>name = n, is_premium = b, issue_type = ''''\<rparr>\<rparr> agent
   \<and> \<not> refund_is_enabled \<lparr>ctx_context = \<lparr>name = n, is_premium = b, issue_type = ''Refund''\<rparr>\<rparr> agent
   \<and> \<not> refund_is_enabled \<lparr>ctx_context = \<lparr>name = n, is_premium = b, issue_type = ''r3fu#d''\<rparr>\<rparr> agent"
  by (simp add: refund_is_enabled_def)

text \<open>
  Claim C3. For every context, the predicate of \<open>check_issue_type\<close> is true if and only if
  the context's \<open>is_premium\<close> field is false.
\<close>

theorem check_issue_type_enabled_iff:
  "check_issue_type_is_enabled ctx agent = (is_premium (ctx_context ctx) = False)"
  by (simp add: check_issue_type_is_enabled_def)

text \<open>
  Claim C4. For every context, the predicate of \<open>restart_service\<close> is true if and only if
  the context's \<open>issue_type\<close> equals the string "technical".
\<close>

theorem restart_service_enabled_iff:
  "restart_service_is_enabled ctx agent = (issue_type (ctx_context ctx) = ''technical'')"
  by (simp add: restart_service_is_enabled_def)

text \<open>
  Claim C10. For every context, the predicates of \<open>refund\<close> and of \<open>restart_service\<close> are
  never both true, whichever agents they are asked about.
\<close>

theorem refund_restart_exclusive:
  "\<not> (refund_is_enabled ctx agent \<and> restart_service_is_enabled ctx agent')"
  by (simp add: refund_is_enabled_def restart_service_is_enabled_def)

subsection \<open>Leaving the loop\<close>

text \<open>
  Claim C6, as the code has it. The first prompt's answer is stripped of surrounding
  whitespace and lower-cased before it is compared. When the result is "exit" or "quit", the
  loop returns at once: the trace of the turn is the first prompt and the farewell, with no
  issue-type prompt, no premium prompt and no call of the runner. Every letter casing of
  the two words is such an answer. For every other answer the loop goes on: the issue-type
  prompt is shown; when that is answered, the premium prompt is shown; when that is
  answered, the runner is called with the user's input and the context of the turn.
\<close>

theorem main_loop_exit_or_continue:
  "(py_lower (py_strip u) \<in> set [''exit'', ''quit''] \<longrightarrow>
      main_loop run k (u # stdin) = (Returned, [Prompt_user_input, Print_exiting]))
   \<and> (py_lower u \<in> set [''exit'', ''quit''] \<longrightarrow>
        py_lower (py_strip u) \<in> set [''exit'', ''quit''])
   \<and> (py_lower (py_strip u) \<notin> set [''exit'', ''quit''] \<longrightarrow>
        take 2 (snd (main_loop run k (u # stdin))) = [Prompt_user_input, Prompt_issue_type]
        \<and> take 3 (snd (main_loop run k (u # i # stdin)))
            = [Prompt_user_input, Prompt_issue_type, Prompt_premium]
        \<and> take 5 (snd (main_loop run k (u # i # p # stdin)))
            = [Prompt_user_input, Prompt_issue_type, Prompt_premium, Print_agent_response,
               Call_run_streamed u (user_data i p)])"
proof (intro conjI impI)
  assume "py_lower (py_strip u) \<in> set [''exit'', ''quit'']"
  then show "main_loop run k (u # stdin) = (Returned, [Prompt_user_input, Print_exiting])"
    by (rule main_loop_exit)
next
  assume a: "py_lower u \<in> set [''exit'', ''quit'']"
  then have "py_strip u = u"
    by (intro py_strip_case_variant) auto
  with a show "py_lower (py_strip u) \<in> set [''exit'', ''quit'']"
    by simp
next
  assume ne: "py_lower (py_strip u) \<notin> set [''exit'', ''quit'']"
  then show "take 2 (snd (main_loop run k (u # stdin))) = [Prompt_user_input, Prompt_issue_type]"
    by (auto simp: Let_def split: list.splits sum.splits stream_end.splits prod.splits)
  from ne show "take 3 (snd (main_loop run k (u # i # stdin)))
      = [Prompt_user_input, Prompt_issue_type, Prompt_premium]"
    by (auto simp: Let_def split: list.splits sum.splits stream_end.splits prod.splits)
  from ne show "take 5 (snd (main_loop run k (u # i # p # stdin)))
      = [Prompt_user_input, Prompt_issue_type, Prompt_premium, Print_agent_response,
         Call_run_streamed u (user_data i p)]"
    by (auto simp: Let_def split: list.splits sum.splits stream_end.splits prod.splits)
qed

text \<open>The three cases at concrete answers: " Quit ", "EXIT" and a question.\<close>

theorem main_loop_exit_or_continue_witness:
  "py_lower (py_strip '' Quit '') \<in> set [''exit'', ''quit'']
   \<and> main_loop quiet_runner 0 ['' Quit '', ''refund''] = (Returned, [Prompt_user_input, Print_exiting])
   \<and> py_lower ''EXIT'' \<in> set [''exit'', ''quit'']
   \<and> py_lower (py_strip ''EXIT'') \<in> set [''exit'', ''quit'']
   \<and> py_lower (py_strip ''my app is down'') \<notin> set [''exit'', ''quit'']
   \<and> take 5 (snd (main_loop quiet_runner 0 [''my app is down'', ''Technical'', ''no'']))
       = [Prompt_user_input, Prompt_issue_type, Prompt_premium, Print_agent_response,
          Call_run_streamed ''my app is down''
            \<lparr>name = ''Areeba'', is_premium = False, issue_type = ''technical''\<rparr>]"
proof -
  have a: "py_lower (py_strip '' Quit '') \<in> set [''exit'', ''quit'']"
    by code_simp
  have b: "py_lower ''EXIT'' \<in> set [''exit'', ''quit'']"
    by code_simp
  have c: "py_lower (py_strip ''my app is down'') \<notin> set [''exit'', ''quit'']"
    by code_simp
  have d: "user_data ''Technical'' ''no''
      = \<lparr>name = ''Areeba'', is_premium = False, issue_type = ''technical''\<rparr>"
    by code_simp
  show ?thesis
    using a b c
      main_loop_exit_or_continue [of "'' Quit ''" quiet_runner 0 "[''refund'']"]
      main_loop_exit_or_continue [of "''EXIT''" quiet_runner 0 "[]"]
      main_loop_exit_or_continue [of "''my app is down''" quiet_runner 0 "[]" "''Technical''" "''no''"]
    by (simp only: d simp_thms)
qed

text \<open>
  Claim C6 as it is worded speaks of the letter casing only. The answer " exit", with a
  leading space, is not a letter casing of "exit" or "quit", and still the loop returns
  at once.
\<close>

theorem exit_with_spaces_counterexample:
  "py_lower '' exit'' \<notin> set [''exit'', ''quit'']
   \<and> main_loop quiet_runner 0 ['' exit'', ''refund'', ''no'']
       = (Returned, [Prompt_user_input, Print_exiting])"
  by code_simp

subsection \<open>The premium flag\<close>

text \<open>
  Claim C7, as the code has it. The context's \<open>is_premium\<close> field is true if and only if
  the answer to the premium prompt, stripped of surrounding whitespace and lower-cased, is
  "yes" or "y". Every letter casing of the two words gives true, the empty answer gives
  false, and the context so built is the one the runner receives in the turn.
\<close>

theorem premium_flag:
  "(is_premium (user_data i p) \<longleftrightarrow> py_lower (py_strip p) \<in> set [''yes'', ''y''])
   \<and> (py_lower p \<in> set [''yes'', ''y''] \<longrightarrow> is_premium (user_data i p))
   \<and> \<not> is_premium (user_data i '''')
   \<and> (py_lower (py_strip u) \<notin> set [''exit'', ''quit''] \<longrightarrow>
        (\<exists>cs. contexts (snd (main_loop run k (u # i # p # stdin))) = user_data i p # cs))"
proof (intro conjI impI)
  show "is_premium (user_data i p) \<longleftrightarrow> py_lower (py_strip p) \<in> set [''yes'', ''y'']"
    by (simp add: user_data_def Let_def)
next
  assume a: "py_lower p \<in> set [''yes'', ''y'']"
  then have "py_strip p = p"
    by (intro py_strip_case_variant) auto
  with a show "is_premium (user_data i p)"
    by (simp add: user_data_def Let_def)
next
  show "\<not> is_premium (user_data i '''')"
    by (simp add: user_data_def Let_def py_strip_def py_lstrip_def py_rstrip_def py_lower_def)
next
  assume "py_lower (py_strip u) \<notin> set [''exit'', ''quit'']"
  then show "\<exists>cs. contexts (snd (main_loop run k (u # i # p # stdin))) = user_data i p # cs"
    by (auto simp: Let_def contexts_append
             split: list.splits sum.splits stream_end.splits prod.splits)
qed

text \<open>The answer "Y" in a turn about billing.\<close>

theorem premium_flag_witness:
  "py_lower ''Y'' \<in> set [''yes'', ''y'']
   \<and> is_premium (user_data ''billing'' ''Y'')
   \<and> py_lower (py_strip ''hello'') \<notin> set [''exit'', ''quit'']
   \<and> (\<exists>cs. contexts (snd (main_loop quiet_runner 0 [''hello'', ''billing'', ''Y'', ''exit'']))
         = \<lparr>name = ''Areeba'', is_premium = True, issue_type = ''billing''\<rparr> # cs)"
proof -
  have a: "py_lower ''Y'' \<in> set [''yes'', ''y'']"
    by code_simp
  have b: "py_lower (py_strip ''hello'') \<notin> set [''exit'', ''quit'']"
    by code_simp
  have d: "user_data ''billing'' ''Y''
      = \<lparr>name = ''Areeba'', is_premium = True, issue_type = ''billing''\<rparr>"
    by code_simp
  show ?thesis
    using a b premium_flag [of "''billing''" "''Y''" "''hello''" quiet_runner 0 "[''exit'']"]
    by (simp add: d)
qed

text \<open>
  Claim C7 as it is worded speaks of the letter casing only. The answer " yes", with a
  leading space, is not a letter casing of "yes" or "y", and the field is true.
\<close>

theorem premium_with_spaces_counterexample:
  "py_lower '' yes'' \<notin> set [''yes'', ''y'']
   \<and> is_premium (user_data ''refund'' '' yes'')
   \<and> contexts (snd (main_loop quiet_runner 0 [''refund please'', ''refund'', '' yes'']))
       = [\<lparr>name = ''Areeba'', is_premium = True, issue_type = ''refund''\<rparr>]"
  by code_simp

subsection \<open>The missing API key\<close>

text \<open>
  Claim C8. When \<open>OPENAI_API_KEY\<close> is unset or empty in the environment that \<open>os.getenv\<close>
  reads (the process environment after \<open>load_dotenv\<close>), the program ends with the
  \<open>ValueError\<close> of the configuration check and has shown nothing: no banner and no prompt.
  It is the only error the program raises itself: whenever the program ends with a
  \<open>ValueError\<close>, the key was unset or empty. (The other uncaught errors of the model come
  from \<open>input\<close> at the end of the input and from the external runtime.)
\<close>

theorem missing_api_key:
  "(os_getenv (load_dotenv environ) ''OPENAI_API_KEY'' = None
      \<or> os_getenv (load_dotenv environ) ''OPENAI_API_KEY'' = Some '''' \<longrightarrow>
      program load_dotenv environ run_streamed stdin
        = (Uncaught (ValueError ''OPENAI_API_KEY not found in environment variables.''), []))
   \<and> (fst (program load_dotenv environ run_streamed stdin) = Uncaught (ValueError m) \<longrightarrow>
        os_getenv (load_dotenv environ) ''OPENAI_API_KEY'' = None
        \<or> os_getenv (load_dotenv environ) ''OPENAI_API_KEY'' = Some '''')"
proof (intro conjI impI)
  assume "os_getenv (load_dotenv environ) ''OPENAI_API_KEY'' = None
      \<or> os_getenv (load_dotenv environ) ''OPENAI_API_KEY'' = Some ''''"
  then show "program load_dotenv environ run_streamed stdin
        = (Uncaught (ValueError ''OPENAI_API_KEY not found in environment variables.''), [])"
    by (auto simp: program_def module_init_def)
next
  assume e: "fst (program load_dotenv environ run_streamed stdin) = Uncaught (ValueError m)"
  show "os_getenv (load_dotenv environ) ''OPENAI_API_KEY'' = None
        \<or> os_getenv (load_dotenv environ) ''OPENAI_API_KEY'' = Some ''''"
  proof (rule ccontr)
    assume "\<not> ?thesis"
    then obtain key where k: "os_getenv (load_dotenv environ) ''OPENAI_API_KEY'' = Some key"
      and ne: "key \<noteq> []"
      by auto
    define config where
      "config = \<lparr>api_key = key, model = ''gpt-4o-mini'', tracing_disabled = True\<rparr>"
    have "program load_dotenv environ run_streamed stdin = main (run_streamed config) stdin"
      using k ne by (simp add: program_def module_init_def config_def)
    with e have "fst (main_loop (run_streamed config) 0 stdin) = Uncaught (ValueError m)"
      by (simp add: main_def split_beta)
    then show False
      using main_loop_no_ValueError by blast
  qed
qed

text \<open>An empty environment, and an environment where the key is the empty string.\<close>

theorem missing_api_key_witness:
  "os_getenv (id Map.empty) ''OPENAI_API_KEY'' = None
   \<and> program id Map.empty quiet_runtime [''hello'', ''refund'', ''yes'']
       = (Uncaught (ValueError ''OPENAI_API_KEY not found in environment variables.''), [])
   \<and> os_getenv (id [''OPENAI_API_KEY'' \<mapsto> '''']) ''OPENAI_API_KEY'' = Some ''''
   \<and> fst (program id [''OPENAI_API_KEY'' \<mapsto> ''''] quiet_runtime [''hello''])
       = Uncaught (ValueError ''OPENAI_API_KEY not found in environment variables.'')"
proof -
  have a: "os_getenv (id Map.empty) ''OPENAI_API_KEY'' = None"
    by (simp add: os_getenv_def)
  have b: "os_getenv (id [''OPENAI_API_KEY'' \<mapsto> '''']) ''OPENAI_API_KEY'' = Some ''''"
    by (simp add: os_getenv_def)
  show ?thesis
    using a b
      missing_api_key [of id Map.empty quiet_runtime "[''hello'', ''refund'', ''yes'']"]
      missing_api_key [of id "[''OPENAI_API_KEY'' \<mapsto> '''']" quiet_runtime "[''hello'']"]
    by simp
qed

subsection \<open>The name in the context\<close>

text \<open>
  Claim C9. Whatever the environment, the runtime and the lines typed, every context that
  the program hands to the runner, in every turn, has the name "Areeba".
\<close>

theorem name_is_Areeba:
  "\<forall>c \<in> set (contexts (snd (program load_dotenv environ run_streamed stdin))).
     name c = ''Areeba''"
proof
  fix c
  assume c: "c \<in> set (contexts (snd (program load_dotenv environ run_streamed stdin)))"
  show "name c = ''Areeba''"
  proof (cases "module_init (load_dotenv environ)")
    case (Inl e)
    with c show ?thesis by (simp add: program_def)
  next
    case (Inr config)
    with c have "c \<in> set (contexts (snd (main_loop (run_streamed config) 0 stdin)))"
      by (simp add: program_def main_def split_beta)
    then obtain i p where "c = user_data i p"
      using main_loop_contexts by blast
    then show ?thesis by (simp add: user_data_def Let_def)
  qed
qed

text \<open>Two turns, a refund for a premium user and a technical issue, then "quit".\<close>

theorem name_is_Areeba_witness:
  "contexts (snd (program id [''OPENAI_API_KEY'' \<mapsto> ''sk-test''] quiet_runtime
       [''I want my money back'', ''Refund'', ''yes'', ''restart it'', ''technical'', ''n'', ''quit'']))
     = [\<lparr>name = ''Areeba'', is_premium = True, issue_type = ''refund''\<rparr>,
        \<lparr>name = ''Areeba'', is_premium = False, issue_type = ''technical''\<rparr>]
   \<and> name \<lparr>name = ''Areeba'', is_premium = True, issue_type = ''refund''\<rparr> = ''Areeba''
   \<and> name \<lparr>name = ''Areeba'', is_premium = False, issue_type = ''technical''\<rparr> = ''Areeba''"
proof -
  have a: "contexts (snd (program id [''OPENAI_API_KEY'' \<mapsto> ''sk-test''] quiet_runtime
       [''I want my money back'', ''Refund'', ''yes'', ''restart it'', ''technical'', ''n'', ''quit'']))
     = [\<lparr>name = ''Areeba'', is_premium = True, issue_type = ''refund''\<rparr>,
        \<lparr>name = ''Areeba'', is_premium = False, issue_type = ''technical''\<rparr>]"
    by code_simp
  show ?thesis
    using a name_is_Areeba [of id "[''OPENAI_API_KEY'' \<mapsto> ''sk-test'']" quiet_runtime
       "[''I want my money back'', ''Refund'', ''yes'', ''restart it'', ''technical'', ''n'', ''quit'']"]
    by simp
qed

end
